theory Spec2Isabelle
  imports Main
begin

section \<open>OctoLightHA: the light controller of the plugin\<close>

text \<open>
  A shallow embedding of \<^verbatim>\<open>octoprint_octolightHA/__init__.py\<close>. The plugin object is a
  record that every method takes and returns; the hub is a parameter that answers each HTTP
  request; every call of \<^verbatim>\<open>requests.get\<close>, \<^verbatim>\<open>requests.post\<close>, \<^verbatim>\<open>time.sleep\<close> and
  \<^verbatim>\<open>send_plugin_message\<close> is appended to a chronological trace. Logging is not modelled:
  the logger calls have no influence on results, on the cache or on the calls made.
\<close>

subsection \<open>Values returned by \<^verbatim>\<open>response.json()\<close>\<close>

text \<open>
  The Python value of a decoded JSON body. A dict is an association list read with
  \<^const>\<open>map_of\<close>; its keys are strings, as the JSON decoder produces them. Numbers carry an
  integer payload: the code only subscripts them or compares them with a string.
\<close>

datatype json =
    JNull
  | JBool bool
  | JNum int
  | JStr string
  | JArr "json list"
  | JObj "(string \<times> json) list"

datatype pyexc = IndexError | KeyError | TypeError

text \<open>\<^verbatim>\<open>v[i]\<close> for a non-negative integer \<^verbatim>\<open>i\<close>.\<close>

fun getitem_index :: "json \<Rightarrow> nat \<Rightarrow> pyexc + json" where
  "getitem_index (JArr xs) i = (if i < length xs then Inr (xs ! i) else Inl IndexError)"
| "getitem_index (JStr s) i = (if i < length s then Inr (JStr [s ! i]) else Inl IndexError)"
| "getitem_index (JObj kvs) i = Inl KeyError"
| "getitem_index JNull i = Inl TypeError"
| "getitem_index (JBool b) i = Inl TypeError"
| "getitem_index (JNum n) i = Inl TypeError"

text \<open>\<^verbatim>\<open>v[k]\<close> for a string key \<^verbatim>\<open>k\<close>.\<close>

fun getitem_key :: "json \<Rightarrow> string \<Rightarrow> pyexc + json" where
  "getitem_key (JObj kvs) k = (case map_of kvs k of None \<Rightarrow> Inl KeyError | Some v \<Rightarrow> Inr v)"
| "getitem_key (JArr xs) k = Inl TypeError"
| "getitem_key (JStr s) k = Inl TypeError"
| "getitem_key JNull k = Inl TypeError"
| "getitem_key (JBool b) k = Inl TypeError"
| "getitem_key (JNum n) k = Inl TypeError"

text \<open>\<^verbatim>\<open>_parse_status(status)\<close>: \<^verbatim>\<open>status == 'on'\<close>, for any decoded value.\<close>

definition parse_status :: "json \<Rightarrow> bool" where
  "parse_status status = (if status = JStr ''on'' then True else False)"

subsection \<open>Configuration, requests and the hub\<close>

text \<open>
  \<^verbatim>\<open>self.config\<close> is the empty dict until \<^verbatim>\<open>reload_settings\<close> fills all four keys in one
  loop, each with a value of the type of its default; \<^verbatim>\<open>None\<close> below is the empty dict.
\<close>

record settings =
  address :: string
  api_key :: string
  entity_id :: string
  verify_certificate :: bool

datatype request =
    HttpGet string "(string \<times> string) list" bool
  | HttpPost string "(string \<times> string) list" json bool

datatype event =
    Request request
  | Sleep nat
  | PluginMessage "bool option"

text \<open>
  What a call of \<^verbatim>\<open>requests.get\<close> or \<^verbatim>\<open>requests.post\<close> does: it raises
  \<^verbatim>\<open>InvalidURL\<close> or \<^verbatim>\<open>ConnectionError\<close>, it raises another exception, or it returns a
  response whose \<^verbatim>\<open>json()\<close> is a value (\<open>Some\<close>) or raises (\<open>None\<close>).
\<close>

datatype http_outcome =
    ConnectionFailure
  | OtherFailure
  | Response "json option"

text \<open>The hub answers a request knowing everything that happened before it.\<close>

type_synonym hub = "event list \<Rightarrow> request \<Rightarrow> http_outcome"

text \<open>
  The plugin object: \<^verbatim>\<open>self.isLightOn\<close> is \<^verbatim>\<open>True\<close>, \<^verbatim>\<open>False\<close> or \<^verbatim>\<open>None\<close>
  (\<open>None\<close> here).
\<close>

record plugin =
  config :: "settings option"
  isLightOn :: "bool option"
  trace :: "event list"

definition init :: plugin where
  "init = \<lparr>config = None, isLightOn = Some False, trace = []\<rparr>"

text \<open>The truth value of \<^verbatim>\<open>self.isLightOn\<close> in \<^verbatim>\<open>if self.isLightOn\<close>.\<close>

fun truthy :: "bool option \<Rightarrow> bool" where
  "truthy None = False"
| "truthy (Some b) = b"

definition is_config_completed :: "settings option \<Rightarrow> bool" where
  "is_config_completed cfg =
     (case cfg of
        None \<Rightarrow> False
      | Some c \<Rightarrow> address c \<noteq> [] \<and> entity_id c \<noteq> [] \<and> api_key c \<noteq> [])"

text \<open>\<^verbatim>\<open>s.split(sep)\<close> for a separator of one character.\<close>

fun split_on :: "char \<Rightarrow> string \<Rightarrow> string list" where
  "split_on sep [] = [[]]"
| "split_on sep (x # xs) =
     (if x = sep then [] # split_on sep xs
      else (case split_on sep xs of
              [] \<Rightarrow> [[x]]
            | w # ws \<Rightarrow> (x # w) # ws))"

definition entity_domain :: "string \<Rightarrow> string" where
  "entity_domain e = hd (split_on CHR ''.'' e)"

definition auth_headers :: "settings \<Rightarrow> (string \<times> string) list" where
  "auth_headers c = [(''Authorization'', ''Bearer '' @ api_key c)]"

definition state_request :: "settings \<Rightarrow> request" where
  "state_request c =
     HttpGet (address c @ ''/api/states/'' @ entity_id c) (auth_headers c)
       (verify_certificate c)"

definition toggle_request :: "settings \<Rightarrow> request" where
  "toggle_request c =
     HttpPost (address c @ ''/api/services/'' @ entity_domain (entity_id c) @ ''/toggle'')
       (auth_headers c) (JObj [(''entity_id'', JStr (entity_id c))]) (verify_certificate c)"

definition send :: "hub \<Rightarrow> request \<Rightarrow> plugin \<Rightarrow> http_outcome \<times> plugin" where
  "send hub req s = (hub (trace s) req, s\<lparr>trace := trace s @ [Request req]\<rparr>)"

definition sleep :: "nat \<Rightarrow> plugin \<Rightarrow> plugin" where
  "sleep n s = s\<lparr>trace := trace s @ [Sleep n]\<rparr>"

subsection \<open>Querying and toggling\<close>

text \<open>The \<^verbatim>\<open>else\<close> branch of the query: \<^verbatim>\<open>response.json()['state']\<close>, then the parser.\<close>

fun state_result :: "http_outcome \<Rightarrow> bool option" where
  "state_result ConnectionFailure = None"
| "state_result OtherFailure = None"
| "state_result (Response None) = None"
| "state_result (Response (Some j)) =
     (case getitem_key j ''state'' of
        Inl e \<Rightarrow> None
      | Inr status \<Rightarrow> Some (parse_status status))"

definition is_HA_state_on :: "hub \<Rightarrow> plugin \<Rightarrow> bool option \<times> plugin" where
  "is_HA_state_on hub s =
     (if \<not> is_config_completed (config s) then (Some False, s)
      else (case config s of
              None \<Rightarrow> (Some False, s)
            | Some c \<Rightarrow>
                (case send hub (state_request c) s of
                   (out, s1) \<Rightarrow> (state_result out, s1))))"

text \<open>\<^verbatim>\<open>response.json()[0]['state']\<close>.\<close>

definition toggle_status :: "json \<Rightarrow> pyexc + json" where
  "toggle_status j =
     (case getitem_index j 0 of
        Inl e \<Rightarrow> Inl e
      | Inr x \<Rightarrow> getitem_key x ''state'')"

definition toggle_HA_state :: "hub \<Rightarrow> plugin \<Rightarrow> bool option \<times> plugin" where
  "toggle_HA_state hub s =
     (if \<not> is_config_completed (config s) then (None, s)
      else (case config s of
              None \<Rightarrow> (None, s)
            | Some c \<Rightarrow>
                (case send hub (toggle_request c) s of
                   (ConnectionFailure, s1) \<Rightarrow> (None, s1)
                 | (OtherFailure, s1) \<Rightarrow> (None, s1)
                 | (Response None, s1) \<Rightarrow> (None, s1)
                 | (Response (Some j), s1) \<Rightarrow>
                     (case toggle_status j of
                        Inl IndexError \<Rightarrow> is_HA_state_on hub (sleep 1 s1)
                      | Inl KeyError \<Rightarrow> is_HA_state_on hub (sleep 1 s1)
                      | Inl TypeError \<Rightarrow> (None, s1)
                      | Inr status \<Rightarrow> (Some (parse_status status), s1)))))"

definition toggle_light :: "hub \<Rightarrow> plugin \<Rightarrow> plugin" where
  "toggle_light hub s =
     (case toggle_HA_state hub s of
        (r, s1) \<Rightarrow> s1\<lparr>isLightOn := r, trace := trace s1 @ [PluginMessage r]\<rparr>)"

definition refresh_light_status :: "hub \<Rightarrow> plugin \<Rightarrow> plugin" where
  "refresh_light_status hub s =
     (case is_HA_state_on hub s of
        (r, s1) \<Rightarrow> s1\<lparr>isLightOn := r, trace := trace s1 @ [PluginMessage r]\<rparr>)"

subsection \<open>The HTTP handler\<close>

text \<open>\<^verbatim>\<open>flask.jsonify(state=self.isLightOn)\<close> and \<^verbatim>\<open>flask.jsonify(error=...)\<close>.\<close>

definition jsonify_state :: "bool option \<Rightarrow> json" where
  "jsonify_state v = JObj [(''state'', (case v of None \<Rightarrow> JNull | Some b \<Rightarrow> JBool b))]"

definition jsonify_error :: "string \<Rightarrow> json" where
  "jsonify_error msg = JObj [(''error'', JStr msg)]"

text \<open>
  The request is its \<^verbatim>\<open>action\<close> parameter, \<open>None\<close> when absent:
  \<^verbatim>\<open>request.args.get('action', default='toggle', type=str)\<close>.
\<close>

definition on_api_get :: "hub \<Rightarrow> string option \<Rightarrow> plugin \<Rightarrow> json \<times> plugin" where
  "on_api_get hub req s =
     (let action = (case req of None \<Rightarrow> ''toggle'' | Some a \<Rightarrow> a) in
      if action = ''toggle'' then
        (let s1 = toggle_light hub s in (jsonify_state (isLightOn s1), s1))
      else if action = ''getState'' then
        (let s1 = refresh_light_status hub s in (jsonify_state (isLightOn s1), s1))
      else if action = ''turnOn'' then
        (let s1 = (if \<not> truthy (isLightOn s) then toggle_light hub s else s)
         in (jsonify_state (isLightOn s1), s1))
      else if action = ''turnOff'' then
        (let s1 = (if truthy (isLightOn s) then toggle_light hub s else s)
         in (jsonify_state (isLightOn s1), s1))
      else (jsonify_error ''action not recognized'', s))"

text \<open>The network calls among the events of a trace.\<close>

fun requests_of :: "event list \<Rightarrow> request list" where
  "requests_of [] = []"
| "requests_of (Request r # es) = r # requests_of es"
| "requests_of (e # es) = requests_of es"

text \<open>
  The derived operation of setting the light: the handler's \<^verbatim>\<open>turnOn\<close> action for
  \<open>True\<close> and its \<^verbatim>\<open>turnOff\<close> action for \<open>False\<close>.
\<close>

definition setState :: "hub \<Rightarrow> bool \<Rightarrow> plugin \<Rightarrow> json \<times> plugin" where
  "setState hub desired s =
     on_api_get hub (Some (if desired then ''turnOn'' else ''turnOff'')) s"

subsection \<open>Concrete configurations, hubs and plugin states\<close>

definition cfg_kitchen :: settings where
  "cfg_kitchen = \<lparr>address = ''http://hub.local'', api_key = ''secret'',
     entity_id = ''light.kitchen'', verify_certificate = False\<rparr>"

definition cfg_nokey :: settings where
  "cfg_nokey = \<lparr>address = ''http://hub.local'', api_key = '''',
     entity_id = ''light.kitchen'', verify_certificate = False\<rparr>"

text \<open>A hub that cannot be reached.\<close>

definition hub_down :: hub where
  "hub_down h r = ConnectionFailure"

text \<open>A hub that answers the toggle service with an empty array and a query with "on".\<close>

definition hub_lagging :: hub where
  "hub_lagging h r =
     (case r of
        HttpPost u hs b v \<Rightarrow> Response (Some (JArr []))
      | HttpGet u hs v \<Rightarrow> Response (Some (JObj [(''state'', JStr ''on'')])))"

text \<open>A hub that reports the state in capitals.\<close>

definition hub_shouting :: hub where
  "hub_shouting h r = Response (Some (JObj [(''state'', JStr ''ON'')]))"

definition plugin_with :: "settings option \<Rightarrow> bool option \<Rightarrow> plugin" where
  "plugin_with cfg v = \<lparr>config = cfg, isLightOn = v, trace = []\<rparr>"

subsection \<open>Basic facts\<close>

lemma split_on_not_Nil: "split_on sep s \<noteq> []"
  by (induction s) (auto split: list.splits)

lemma hd_split_on: "hd (split_on sep s) = takeWhile (\<lambda>x. x \<noteq> sep) s"
  by (induction s) (auto split: list.splits simp: split_on_not_Nil)

lemma entity_domain_before_dot:
  "CHR ''.'' \<notin> set d \<Longrightarrow> entity_domain (d @ CHR ''.'' # r) = d"
  by (auto simp: entity_domain_def hd_split_on takeWhile_tail)

lemma requests_of_append: "requests_of (es @ fs) = requests_of es @ requests_of fs"
  by (induction es rule: requests_of.induct) auto

lemma is_HA_state_on_complete:
  "config s = Some c \<Longrightarrow> is_config_completed (config s) \<Longrightarrow>
   is_HA_state_on hub s =
     (state_result (hub (trace s) (state_request c)),
      s\<lparr>trace := trace s @ [Request (state_request c)]\<rparr>)"
  by (simp add: is_HA_state_on_def send_def)

lemma is_HA_state_on_incomplete:
  "\<not> is_config_completed (config s) \<Longrightarrow> is_HA_state_on hub s = (Some False, s)"
  by (simp add: is_HA_state_on_def)

lemma toggle_HA_state_incomplete:
  "\<not> is_config_completed (config s) \<Longrightarrow> toggle_HA_state hub s = (None, s)"
  by (simp add: toggle_HA_state_def)

lemma incomplete_if_empty_field:
  "cfg = Some c \<Longrightarrow> address c = [] \<or> entity_id c = [] \<or> api_key c = [] \<Longrightarrow>
   \<not> is_config_completed cfg"
  by (auto simp: is_config_completed_def)

text \<open>With a complete configuration the first thing a toggle does is the POST.\<close>

lemma toggle_HA_state_posts_first:
  assumes "config s = Some c" and "is_config_completed (config s)"
  shows "\<exists>rest. trace (snd (toggle_HA_state hub s)) =
           trace s @ Request (toggle_request c) # rest"
proof (cases "hub (trace s) (toggle_request c)")
  case ConnectionFailure
  with assms show ?thesis by (simp add: toggle_HA_state_def send_def)
next
  case OtherFailure
  with assms show ?thesis by (simp add: toggle_HA_state_def send_def)
next
  case (Response body)
  show ?thesis
  proof (cases body)
    case None
    with Response assms show ?thesis by (simp add: toggle_HA_state_def send_def)
  next
    case (Some j)
    have cfg: "config (sleep 1 (s\<lparr>trace := trace s @ [Request (toggle_request c)]\<rparr>)) = Some c"
      using assms(1) by (simp add: sleep_def)
    have q: "trace (snd (is_HA_state_on hub
                 (sleep 1 (s\<lparr>trace := trace s @ [Request (toggle_request c)]\<rparr>)))) =
             trace s @ [Request (toggle_request c), Sleep 1, Request (state_request c)]"
      using assms cfg by (simp add: is_HA_state_on_complete) (simp add: sleep_def)
    show ?thesis
    proof (cases "toggle_status j")
      case (Inl e)
      with Response Some assms q show ?thesis
        by (cases e) (simp_all add: toggle_HA_state_def send_def)
    next
      case (Inr status)
      with Response Some assms show ?thesis
        by (simp add: toggle_HA_state_def send_def)
    qed
  qed
qed

section \<open>The claims\<close>

text \<open>
  C1. A toggle with a complete configuration whose POST returns a body on which
  \<^verbatim>\<open>response.json()[0]['state']\<close> raises IndexError or KeyError (an empty array, a first
  element without the field) sleeps 1, then makes exactly one state query and returns that
  query's result: the calls made are the POST, the sleep and one GET, nothing more. A query
  that fails (connection error, other exception, undecodable body) gives \<open>None\<close>, so the
  toggle's result is then Unknown.
\<close>

theorem toggle_HA_state_requeries_once:
  assumes "config s = Some c"
    and "is_config_completed (config s)"
    and "hub (trace s) (toggle_request c) = Response (Some j)"
    and "toggle_status j = Inl IndexError \<or> toggle_status j = Inl KeyError"
  shows "toggle_HA_state hub s =
           is_HA_state_on hub (sleep 1 (snd (send hub (toggle_request c) s)))
         \<and> trace (snd (toggle_HA_state hub s)) =
             trace s @ [Request (toggle_request c), Sleep 1, Request (state_request c)]
         \<and> fst (toggle_HA_state hub s) =
             state_result (hub (trace s @ [Request (toggle_request c), Sleep 1]) (state_request c))
         \<and> toggle_status (JArr []) = Inl IndexError
         \<and> state_result ConnectionFailure = None
         \<and> state_result OtherFailure = None
         \<and> state_result (Response None) = None"
proof -
  let ?s2 = "sleep 1 (snd (send hub (toggle_request c) s))"
  have step: "toggle_HA_state hub s = is_HA_state_on hub ?s2"
    using assms by (auto simp: toggle_HA_state_def send_def)
  have cfg: "config ?s2 = Some c" "is_config_completed (config ?s2)"
    using assms(1,2) by (simp_all add: sleep_def send_def)
  have tr: "trace ?s2 = trace s @ [Request (toggle_request c), Sleep 1]"
    by (simp add: sleep_def send_def)
  have q: "is_HA_state_on hub ?s2 =
             (state_result (hub (trace ?s2) (state_request c)),
              ?s2\<lparr>trace := trace ?s2 @ [Request (state_request c)]\<rparr>)"
    using cfg by (rule is_HA_state_on_complete)
  have a: "trace (snd (toggle_HA_state hub s)) =
             trace s @ [Request (toggle_request c), Sleep 1, Request (state_request c)]"
    unfolding step q using tr by simp
  have b: "fst (toggle_HA_state hub s) =
             state_result (hub (trace s @ [Request (toggle_request c), Sleep 1]) (state_request c))"
    unfolding step q using tr by simp
  have e: "toggle_status (JArr []) = Inl IndexError"
    by (simp add: toggle_status_def)
  from step a b e show ?thesis by simp
qed

theorem toggle_HA_state_requeries_once_witness:
  "config (plugin_with (Some cfg_kitchen) (Some False)) = Some cfg_kitchen
   \<and> is_config_completed (config (plugin_with (Some cfg_kitchen) (Some False)))
   \<and> hub_lagging (trace (plugin_with (Some cfg_kitchen) (Some False)))
        (toggle_request cfg_kitchen) = Response (Some (JArr []))
   \<and> toggle_status (JArr []) = Inl IndexError
   \<and> trace (snd (toggle_HA_state hub_lagging (plugin_with (Some cfg_kitchen) (Some False)))) =
       [Request (toggle_request cfg_kitchen), Sleep 1, Request (state_request cfg_kitchen)]
   \<and> fst (toggle_HA_state hub_lagging (plugin_with (Some cfg_kitchen) (Some False))) = Some True"
proof -
  have h1: "config (plugin_with (Some cfg_kitchen) (Some False)) = Some cfg_kitchen"
    by (simp add: plugin_with_def)
  have h2: "is_config_completed (config (plugin_with (Some cfg_kitchen) (Some False)))"
    by (simp add: plugin_with_def is_config_completed_def cfg_kitchen_def)
  have h3: "hub_lagging (trace (plugin_with (Some cfg_kitchen) (Some False)))
              (toggle_request cfg_kitchen) = Response (Some (JArr []))"
    by (simp add: hub_lagging_def toggle_request_def)
  have h4: "toggle_status (JArr []) = Inl IndexError \<or> toggle_status (JArr []) = Inl KeyError"
    by (simp add: toggle_status_def)
  have q: "state_result (hub_lagging ([] @ [Request (toggle_request cfg_kitchen), Sleep 1])
             (state_request cfg_kitchen)) = Some True"
    by (simp add: hub_lagging_def state_request_def parse_status_def)
  have t: "trace (plugin_with (Some cfg_kitchen) (Some False)) = []"
    by (simp add: plugin_with_def)
  note th = toggle_HA_state_requeries_once
         [where s = "plugin_with (Some cfg_kitchen) (Some False)" and c = cfg_kitchen
            and hub = hub_lagging and j = "JArr []", OF h1 h2 h3 h4]
  from th have a: "trace (snd (toggle_HA_state hub_lagging
                     (plugin_with (Some cfg_kitchen) (Some False)))) =
                   trace (plugin_with (Some cfg_kitchen) (Some False)) @
                   [Request (toggle_request cfg_kitchen), Sleep 1,
                    Request (state_request cfg_kitchen)]"
    by blast
  from th have b: "fst (toggle_HA_state hub_lagging
                     (plugin_with (Some cfg_kitchen) (Some False))) =
                   state_result (hub_lagging
                     (trace (plugin_with (Some cfg_kitchen) (Some False)) @
                      [Request (toggle_request cfg_kitchen), Sleep 1])
                     (state_request cfg_kitchen))"
    by blast
  from th have e: "toggle_status (JArr []) = Inl IndexError"
    by blast
  show ?thesis
    using h1 h2 h3 e q by (simp add: a b t)
qed

text \<open>
  C2, as stated, fails: a refresh and a toggle store their result in the cache whatever it
  is. With the light cached as on and the hub unreachable, both leave \<open>None\<close> in the cache
  instead of keeping \<open>Some True\<close>.
\<close>

theorem cache_retained_on_failure_counterexample:
  "isLightOn (plugin_with (Some cfg_kitchen) (Some True)) = Some True
   \<and> isLightOn (refresh_light_status hub_down (plugin_with (Some cfg_kitchen) (Some True))) = None
   \<and> isLightOn (toggle_light hub_down (plugin_with (Some cfg_kitchen) (Some True))) = None"
  by (simp add: plugin_with_def cfg_kitchen_def hub_down_def refresh_light_status_def
      toggle_light_def is_HA_state_on_def toggle_HA_state_def is_config_completed_def send_def)

text \<open>
  C2 amended. After every refresh and every toggle the cache holds the result that very
  operation returned, and nothing of its prior value. A refresh stores the result of
  \<^const>\<open>is_HA_state_on\<close>: \<open>False\<close> without any call when the configuration is incomplete,
  otherwise the state decoded from the hub's answer to the query, which is \<open>None\<close>
  (Unknown) when the request or its decoding failed. A toggle stores the result of
  \<^const>\<open>toggle_HA_state\<close>: \<open>None\<close> when the configuration is incomplete, when the POST or the
  decoding of its answer failed, or when the follow-up query failed, otherwise the state
  that was decoded. So Unknown is stored like any other result, and the cache after either
  operation does not depend on the cache before it.
\<close>

theorem cache_adopts_result:
  "isLightOn (refresh_light_status hub s) = fst (is_HA_state_on hub s)
   \<and> isLightOn (toggle_light hub s) = fst (toggle_HA_state hub s)
   \<and> isLightOn (refresh_light_status hub (s\<lparr>isLightOn := v\<rparr>)) =
       isLightOn (refresh_light_status hub s)
   \<and> isLightOn (toggle_light hub (s\<lparr>isLightOn := v\<rparr>)) =
       isLightOn (toggle_light hub s)
   \<and> fst (is_HA_state_on hub s) =
       (case config s of
          None \<Rightarrow> Some False
        | Some c \<Rightarrow>
            if is_config_completed (Some c)
            then state_result (hub (trace s) (state_request c))
            else Some False)
   \<and> fst (toggle_HA_state hub s) =
       (case config s of
          None \<Rightarrow> None
        | Some c \<Rightarrow>
            if is_config_completed (Some c)
            then (case hub (trace s) (toggle_request c) of
                    ConnectionFailure \<Rightarrow> None
                  | OtherFailure \<Rightarrow> None
                  | Response None \<Rightarrow> None
                  | Response (Some j) \<Rightarrow>
                      (case toggle_status j of
                         Inl IndexError \<Rightarrow>
                           state_result (hub (trace s @ [Request (toggle_request c), Sleep 1])
                             (state_request c))
                       | Inl KeyError \<Rightarrow>
                           state_result (hub (trace s @ [Request (toggle_request c), Sleep 1])
                             (state_request c))
                       | Inl TypeError \<Rightarrow> None
                       | Inr status \<Rightarrow> Some (parse_status status)))
            else None)
   \<and> state_result ConnectionFailure = None
   \<and> state_result OtherFailure = None
   \<and> state_result (Response None) = None"
proof -
  have r: "isLightOn (refresh_light_status hub t) = fst (is_HA_state_on hub t)" for t
    by (cases "is_HA_state_on hub t") (simp add: refresh_light_status_def)
  have g: "isLightOn (toggle_light hub t) = fst (toggle_HA_state hub t)" for t
    by (cases "toggle_HA_state hub t") (simp add: toggle_light_def)
  have q: "fst (is_HA_state_on hub t) =
       (case config t of
          None \<Rightarrow> Some False
        | Some c \<Rightarrow>
            if is_config_completed (Some c)
            then state_result (hub (trace t) (state_request c))
            else Some False)" for t
    by (simp add: is_HA_state_on_def send_def is_config_completed_def split: option.splits)
  have tg: "fst (toggle_HA_state hub t) =
       (case config t of
          None \<Rightarrow> None
        | Some c \<Rightarrow>
            if is_config_completed (Some c)
            then (case hub (trace t) (toggle_request c) of
                    ConnectionFailure \<Rightarrow> None
                  | OtherFailure \<Rightarrow> None
                  | Response None \<Rightarrow> None
                  | Response (Some j) \<Rightarrow>
                      (case toggle_status j of
                         Inl IndexError \<Rightarrow>
                           state_result (hub (trace t @ [Request (toggle_request c), Sleep 1])
                             (state_request c))
                       | Inl KeyError \<Rightarrow>
                           state_result (hub (trace t @ [Request (toggle_request c), Sleep 1])
                             (state_request c))
                       | Inl TypeError \<Rightarrow> None
                       | Inr status \<Rightarrow> Some (parse_status status)))
            else None)" for t
  proof (cases "config t")
    case None
    then show ?thesis by (simp add: toggle_HA_state_def is_config_completed_def)
  next
    case (Some c)
    show ?thesis
    proof (cases "is_config_completed (Some c)")
      case False
      with Some show ?thesis by (simp add: toggle_HA_state_def)
    next
      case True
      let ?t2 = "sleep 1 (t\<lparr>trace := trace t @ [Request (toggle_request c)]\<rparr>)"
      have c2: "config ?t2 = Some c" "is_config_completed (config ?t2)"
        using Some True by (simp_all add: sleep_def)
      have t2: "trace ?t2 = trace t @ [Request (toggle_request c), Sleep 1]"
        by (simp add: sleep_def)
      have f: "fst (is_HA_state_on hub ?t2) =
                 state_result (hub (trace t @ [Request (toggle_request c), Sleep 1])
                   (state_request c))"
        unfolding is_HA_state_on_complete [OF c2] using t2 by simp
      from Some True f show ?thesis
        by (simp add: toggle_HA_state_def send_def
            split: http_outcome.splits option.splits sum.splits pyexc.splits)
    qed
  qed
  have tr: "trace (s\<lparr>isLightOn := v\<rparr>) = trace s"
    by simp
  have cf: "config (s\<lparr>isLightOn := v\<rparr>) = config s"
    by simp
  have qi: "fst (is_HA_state_on hub (s\<lparr>isLightOn := v\<rparr>)) = fst (is_HA_state_on hub s)"
    unfolding q tr cf by (rule refl)
  have ti: "fst (toggle_HA_state hub (s\<lparr>isLightOn := v\<rparr>)) = fst (toggle_HA_state hub s)"
    unfolding tg tr cf by (rule refl)
  have a: "isLightOn (refresh_light_status hub (s\<lparr>isLightOn := v\<rparr>)) =
             isLightOn (refresh_light_status hub s)"
    by (simp only: r qi)
  have b: "isLightOn (toggle_light hub (s\<lparr>isLightOn := v\<rparr>)) =
             isLightOn (toggle_light hub s)"
    by (simp only: g ti)
  have z: "state_result ConnectionFailure = None \<and> state_result OtherFailure = None
           \<and> state_result (Response None) = None"
    by simp
  from r [of s] g [of s] a b q [of s] tg [of s] z show ?thesis
    by blast
qed

theorem cache_adopts_result_witness:
  "isLightOn (plugin_with (Some cfg_kitchen) (Some True)) = Some True
   \<and> isLightOn (refresh_light_status hub_down (plugin_with (Some cfg_kitchen) (Some True))) = None
   \<and> isLightOn (toggle_light hub_down (plugin_with (Some cfg_kitchen) (Some True))) = None
   \<and> isLightOn (refresh_light_status hub_down (plugin_with (Some cfg_nokey) (Some True))) =
       Some False
   \<and> isLightOn (toggle_light hub_down (plugin_with (Some cfg_nokey) (Some True))) = None"
proof -
  note k = cache_adopts_result
         [where s = "plugin_with (Some cfg_kitchen) (Some True)" and hub = hub_down]
  note n = cache_adopts_result
         [where s = "plugin_with (Some cfg_nokey) (Some True)" and hub = hub_down]
  have k1: "isLightOn (refresh_light_status hub_down
              (plugin_with (Some cfg_kitchen) (Some True))) = None"
    using k by (simp add: plugin_with_def cfg_kitchen_def is_config_completed_def hub_down_def)
  have k2: "isLightOn (toggle_light hub_down
              (plugin_with (Some cfg_kitchen) (Some True))) = None"
    using k by (simp add: plugin_with_def cfg_kitchen_def is_config_completed_def hub_down_def)
  have n1: "isLightOn (refresh_light_status hub_down
              (plugin_with (Some cfg_nokey) (Some True))) = Some False"
    using n by (simp add: plugin_with_def cfg_nokey_def is_config_completed_def)
  have n2: "isLightOn (toggle_light hub_down
              (plugin_with (Some cfg_nokey) (Some True))) = None"
    using n by (simp add: plugin_with_def cfg_nokey_def is_config_completed_def)
  have i: "isLightOn (plugin_with (Some cfg_kitchen) (Some True)) = Some True"
    by (simp add: plugin_with_def)
  from i k1 k2 n1 n2 show ?thesis by blast
qed

text \<open>
  C3, as stated, fails: with the API key missing and the light cached as on, a toggle makes
  no network call, but \<^const>\<open>toggle_HA_state\<close> returns \<open>None\<close> and \<^const>\<open>toggle_light\<close> stores
  it, so the cache (and the handler's answer) is \<open>None\<close> afterwards, not \<open>Some True\<close>.
\<close>

theorem toggle_incomplete_keeps_cache_counterexample:
  "\<not> is_config_completed (config (plugin_with (Some cfg_nokey) (Some True)))
   \<and> isLightOn (plugin_with (Some cfg_nokey) (Some True)) = Some True
   \<and> isLightOn (toggle_light hub_down (plugin_with (Some cfg_nokey) (Some True))) = None
   \<and> fst (on_api_get hub_down (Some ''toggle'') (plugin_with (Some cfg_nokey) (Some True))) =
       jsonify_state None"
  by (simp add: plugin_with_def cfg_nokey_def is_config_completed_def toggle_light_def
      toggle_HA_state_def on_api_get_def)

text \<open>
  C3 amended. With an incomplete configuration a toggle performs no network call and no
  sleep; its result is \<open>None\<close> (Unknown), which \<^const>\<open>toggle_light\<close> stores in the cache and
  pushes to the clients, and which the handler returns: the cached state is overwritten, not
  kept.
\<close>

theorem toggle_incomplete_no_call:
  assumes "\<not> is_config_completed (config s)"
  shows "toggle_HA_state hub s = (None, s)
         \<and> toggle_light hub s = s\<lparr>isLightOn := None, trace := trace s @ [PluginMessage None]\<rparr>
         \<and> requests_of (trace (toggle_light hub s)) = requests_of (trace s)
         \<and> on_api_get hub (Some ''toggle'') s = (jsonify_state None, toggle_light hub s)"
proof -
  have t: "toggle_HA_state hub s = (None, s)"
    using assms by (rule toggle_HA_state_incomplete)
  have l: "toggle_light hub s = s\<lparr>isLightOn := None, trace := trace s @ [PluginMessage None]\<rparr>"
    by (simp add: toggle_light_def t)
  have r: "requests_of (trace (toggle_light hub s)) = requests_of (trace s)"
    by (simp add: l requests_of_append)
  have h: "on_api_get hub (Some ''toggle'') s = (jsonify_state None, toggle_light hub s)"
    by (simp add: on_api_get_def Let_def l)
  from t l r h show ?thesis by simp
qed

theorem toggle_incomplete_no_call_witness:
  "\<not> is_config_completed (config (plugin_with (Some cfg_nokey) (Some True)))
   \<and> toggle_HA_state hub_lagging (plugin_with (Some cfg_nokey) (Some True)) =
       (None, plugin_with (Some cfg_nokey) (Some True))
   \<and> requests_of (trace (toggle_light hub_lagging (plugin_with (Some cfg_nokey) (Some True)))) = []"
proof -
  have h: "\<not> is_config_completed (config (plugin_with (Some cfg_nokey) (Some True)))"
    by (simp add: plugin_with_def cfg_nokey_def is_config_completed_def)
  have t: "trace (plugin_with (Some cfg_nokey) (Some True)) = []"
    by (simp add: plugin_with_def)
  from toggle_incomplete_no_call
         [where s = "plugin_with (Some cfg_nokey) (Some True)" and hub = hub_lagging, OF h] h t
  show ?thesis by simp
qed

text \<open>
  C4. When one of address, entity id and API key is empty, the query makes no network call
  (it leaves the plugin, and so its trace, as it was) and returns \<open>False\<close>, the falsy value
  standing for the disabled result; the toggle makes no network call either.
\<close>

theorem incomplete_config_disables_calls:
  assumes "config s = Some c"
    and "address c = [] \<or> entity_id c = [] \<or> api_key c = []"
  shows "is_HA_state_on hub s = (Some False, s)
         \<and> truthy (fst (is_HA_state_on hub s)) = False
         \<and> snd (toggle_HA_state hub s) = s
         \<and> requests_of (trace (snd (is_HA_state_on hub s))) = requests_of (trace s)
         \<and> requests_of (trace (snd (toggle_HA_state hub s))) = requests_of (trace s)"
proof -
  have inc: "\<not> is_config_completed (config s)"
    using assms by (rule incomplete_if_empty_field)
  have q: "is_HA_state_on hub s = (Some False, s)"
    using inc by (rule is_HA_state_on_incomplete)
  have t: "toggle_HA_state hub s = (None, s)"
    using inc by (rule toggle_HA_state_incomplete)
  show ?thesis by (simp add: q t)
qed

theorem incomplete_config_disables_calls_witness:
  "config (plugin_with (Some cfg_nokey) (Some True)) = Some cfg_nokey
   \<and> api_key cfg_nokey = []
   \<and> is_HA_state_on hub_lagging (plugin_with (Some cfg_nokey) (Some True)) =
       (Some False, plugin_with (Some cfg_nokey) (Some True))
   \<and> snd (toggle_HA_state hub_lagging (plugin_with (Some cfg_nokey) (Some True))) =
       plugin_with (Some cfg_nokey) (Some True)"
proof -
  have h1: "config (plugin_with (Some cfg_nokey) (Some True)) = Some cfg_nokey"
    by (simp add: plugin_with_def)
  have k: "api_key cfg_nokey = []"
    by (simp add: cfg_nokey_def)
  then have h2: "address cfg_nokey = [] \<or> entity_id cfg_nokey = [] \<or> api_key cfg_nokey = []"
    by simp
  from incomplete_config_disables_calls
         [where s = "plugin_with (Some cfg_nokey) (Some True)" and c = cfg_nokey
            and hub = hub_lagging, OF h1 h2] h1 k
  show ?thesis by simp
qed

text \<open>
  C5. With a complete configuration, when the hub answers the query with a JSON object
  whose \<^verbatim>\<open>state\<close> field is a string, the query returns \<open>True\<close> for "on" and \<open>False\<close> for
  every other string, "off" included.
\<close>

theorem is_HA_state_on_maps_state:
  assumes "config s = Some c"
    and "is_config_completed (config s)"
    and "hub (trace s) (state_request c) = Response (Some (JObj kvs))"
    and "map_of kvs ''state'' = Some (JStr v)"
  shows "fst (is_HA_state_on hub s) = Some (v = ''on'')"
  using assms by (simp add: is_HA_state_on_def send_def parse_status_def)

theorem is_HA_state_on_maps_state_witness:
  "config (plugin_with (Some cfg_kitchen) (Some False)) = Some cfg_kitchen
   \<and> is_config_completed (config (plugin_with (Some cfg_kitchen) (Some False)))
   \<and> hub_lagging (trace (plugin_with (Some cfg_kitchen) (Some False)))
        (state_request cfg_kitchen) = Response (Some (JObj [(''state'', JStr ''on'')]))
   \<and> map_of [(''state'', JStr ''on'')] ''state'' = Some (JStr ''on'')
   \<and> fst (is_HA_state_on hub_lagging (plugin_with (Some cfg_kitchen) (Some False))) = Some True"
proof -
  have h1: "config (plugin_with (Some cfg_kitchen) (Some False)) = Some cfg_kitchen"
    by (simp add: plugin_with_def)
  have h2: "is_config_completed (config (plugin_with (Some cfg_kitchen) (Some False)))"
    by (simp add: plugin_with_def is_config_completed_def cfg_kitchen_def)
  have h3: "hub_lagging (trace (plugin_with (Some cfg_kitchen) (Some False)))
              (state_request cfg_kitchen) = Response (Some (JObj [(''state'', JStr ''on'')]))"
    by (simp add: hub_lagging_def state_request_def)
  have h4: "map_of [(''state'', JStr ''on'')] ''state'' = Some (JStr ''on'')"
    by simp
  from is_HA_state_on_maps_state
         [where s = "plugin_with (Some cfg_kitchen) (Some False)" and c = cfg_kitchen
            and hub = hub_lagging and kvs = "[(''state'', JStr ''on'')]" and v = "''on''",
          OF h1 h2 h3 h4] h1 h2 h3 h4
  show ?thesis by simp
qed

text \<open>
  C6, as stated, fails: with the cache at \<open>None\<close> (Unknown) the cached state does not equal
  the desired state \<open>False\<close>, yet setting the light to off makes no network call and changes
  nothing, where a toggle would issue the POST.
\<close>

theorem setState_not_conditional_counterexample:
  "isLightOn (plugin_with (Some cfg_kitchen) None) \<noteq> Some False
   \<and> setState hub_lagging False (plugin_with (Some cfg_kitchen) None) =
       (jsonify_state None, plugin_with (Some cfg_kitchen) None)
   \<and> requests_of (trace (toggle_light hub_lagging (plugin_with (Some cfg_kitchen) None))) =
       [toggle_request cfg_kitchen, state_request cfg_kitchen]"
  by (simp add: setState_def on_api_get_def plugin_with_def toggle_light_def
      toggle_HA_state_def is_HA_state_on_def is_config_completed_def cfg_kitchen_def
      send_def sleep_def hub_lagging_def toggle_request_def state_request_def
      toggle_status_def)

text \<open>
  C6 amended. Setting the light compares the truth value of the cached state, Unknown
  counting as off, with the desired state: when they agree it makes no call and leaves the
  plugin unchanged, answering with the cached state; otherwise it does exactly what
  \<^const>\<open>toggle_light\<close> does and answers with the new cached state. So setting it on with the
  cache on makes no call, and setting it on with the cache off is a toggle.
\<close>

theorem setState_conditional_toggle:
  "setState hub desired s =
     (if truthy (isLightOn s) = desired then (jsonify_state (isLightOn s), s)
      else (jsonify_state (isLightOn (toggle_light hub s)), toggle_light hub s))"
  by (cases desired) (simp_all add: setState_def on_api_get_def Let_def)

text \<open>
  C7. When the entity id has a dot, the part before its first dot is the entity domain, and
  a toggle with a complete configuration starts with a POST to
  \<^verbatim>\<open>{address}/api/services/{domain}/toggle\<close>; for \<^verbatim>\<open>light.kitchen\<close> the path is
  \<^verbatim>\<open>/api/services/light/toggle\<close>.
\<close>

theorem toggle_posts_to_domain_service:
  assumes "config s = Some c"
    and "is_config_completed (config s)"
    and "entity_id c = d @ CHR ''.'' # r"
    and "CHR ''.'' \<notin> set d"
  shows "entity_domain (entity_id c) = d
         \<and> toggle_request c =
             HttpPost (address c @ ''/api/services/'' @ d @ ''/toggle'') (auth_headers c)
               (JObj [(''entity_id'', JStr (entity_id c))]) (verify_certificate c)
         \<and> (\<exists>rest. trace (snd (toggle_HA_state hub s)) =
               trace s @ Request (toggle_request c) # rest)"
proof -
  have dom: "entity_domain (entity_id c) = d"
    using assms(3,4) by (simp add: entity_domain_before_dot)
  have req: "toggle_request c =
               HttpPost (address c @ ''/api/services/'' @ d @ ''/toggle'') (auth_headers c)
                 (JObj [(''entity_id'', JStr (entity_id c))]) (verify_certificate c)"
    by (simp add: toggle_request_def dom)
  have post: "\<exists>rest. trace (snd (toggle_HA_state hub s)) =
                trace s @ Request (toggle_request c) # rest"
    using assms(1,2) by (rule toggle_HA_state_posts_first)
  from dom req post show ?thesis by blast
qed

theorem toggle_posts_to_domain_service_witness:
  "config (plugin_with (Some cfg_kitchen) (Some False)) = Some cfg_kitchen
   \<and> is_config_completed (config (plugin_with (Some cfg_kitchen) (Some False)))
   \<and> entity_id cfg_kitchen = ''light'' @ CHR ''.'' # ''kitchen''
   \<and> CHR ''.'' \<notin> set ''light''
   \<and> entity_domain (entity_id cfg_kitchen) = ''light''
   \<and> toggle_request cfg_kitchen =
       HttpPost ''http://hub.local/api/services/light/toggle''
         [(''Authorization'', ''Bearer secret'')]
         (JObj [(''entity_id'', JStr ''light.kitchen'')]) False"
proof -
  have h1: "config (plugin_with (Some cfg_kitchen) (Some False)) = Some cfg_kitchen"
    by (simp add: plugin_with_def)
  have h2: "is_config_completed (config (plugin_with (Some cfg_kitchen) (Some False)))"
    by (simp add: plugin_with_def is_config_completed_def cfg_kitchen_def)
  have h3: "entity_id cfg_kitchen = ''light'' @ CHR ''.'' # ''kitchen''"
    by (simp add: cfg_kitchen_def)
  have h4: "CHR ''.'' \<notin> set ''light''"
    by simp
  note th = toggle_posts_to_domain_service
         [where s = "plugin_with (Some cfg_kitchen) (Some False)" and c = cfg_kitchen
            and d = "''light''" and r = "''kitchen''", OF h1 h2 h3 h4]
  from th have dom: "entity_domain (entity_id cfg_kitchen) = ''light''"
    by blast
  from th have req: "toggle_request cfg_kitchen =
      HttpPost (address cfg_kitchen @ ''/api/services/'' @ ''light'' @ ''/toggle'')
        (auth_headers cfg_kitchen) (JObj [(''entity_id'', JStr (entity_id cfg_kitchen))])
        (verify_certificate cfg_kitchen)"
    by blast
  have req': "toggle_request cfg_kitchen =
       HttpPost ''http://hub.local/api/services/light/toggle''
         [(''Authorization'', ''Bearer secret'')]
         (JObj [(''entity_id'', JStr ''light.kitchen'')]) False"
    unfolding req by (simp add: cfg_kitchen_def auth_headers_def)
  from h1 h2 h3 h4 dom req' show ?thesis by blast
qed

text \<open>
  C8. A request whose \<^verbatim>\<open>action\<close> parameter is present and is none of \<^verbatim>\<open>toggle\<close>,
  \<^verbatim>\<open>getState\<close>, \<^verbatim>\<open>turnOn\<close>, \<^verbatim>\<open>turnOff\<close> is answered with
  \<^verbatim>\<open>{"error": "action not recognized"}\<close> and leaves the whole plugin as it was: no network
  call, no event at all, the cached state unchanged.
\<close>

theorem on_api_get_unrecognized:
  assumes "a \<noteq> ''toggle''" and "a \<noteq> ''getState''" and "a \<noteq> ''turnOn''" and "a \<noteq> ''turnOff''"
  shows "on_api_get hub (Some a) s = (JObj [(''error'', JStr ''action not recognized'')], s)"
  using assms by (simp add: on_api_get_def jsonify_error_def)

theorem on_api_get_unrecognized_witness:
  "''blink'' \<noteq> ''toggle'' \<and> ''blink'' \<noteq> ''getState'' \<and> ''blink'' \<noteq> ''turnOn''
   \<and> ''blink'' \<noteq> ''turnOff''
   \<and> on_api_get hub_lagging (Some ''blink'') (plugin_with (Some cfg_kitchen) (Some True)) =
       (JObj [(''error'', JStr ''action not recognized'')],
        plugin_with (Some cfg_kitchen) (Some True))"
proof -
  have h1: "''blink'' \<noteq> ''toggle''" by simp
  have h2: "''blink'' \<noteq> ''getState''" by simp
  have h3: "''blink'' \<noteq> ''turnOn''" by simp
  have h4: "''blink'' \<noteq> ''turnOff''" by simp
  from on_api_get_unrecognized
         [where a = "''blink''" and hub = hub_lagging
            and s = "plugin_with (Some cfg_kitchen) (Some True)", OF h1 h2 h3 h4] h1 h2 h3 h4
  show ?thesis by blast
qed

text \<open>
  C9. The parser is case-sensitive: every string other than the exact lowercase "on" is
  parsed as \<open>False\<close>, among them "ON", "On" and "true"; a hub that reports the state with
  another capitalisation is therefore read as off by the query.
\<close>

theorem parse_status_case_sensitive:
  assumes "v \<noteq> ''on''"
  shows "parse_status (JStr v) = False
         \<and> state_result (Response (Some (JObj [(''state'', JStr v)]))) = Some False
         \<and> parse_status (JStr ''ON'') = False
         \<and> parse_status (JStr ''On'') = False
         \<and> parse_status (JStr ''true'') = False
         \<and> parse_status (JStr ''on'') = True"
  using assms by (simp add: parse_status_def)

theorem parse_status_case_sensitive_witness:
  "''ON'' \<noteq> ''on''
   \<and> parse_status (JStr ''ON'') = False
   \<and> fst (is_HA_state_on hub_shouting (plugin_with (Some cfg_kitchen) (Some True))) = Some False"
proof -
  have h: "''ON'' \<noteq> ''on''" by simp
  note th = parse_status_case_sensitive [where v = "''ON''", OF h]
  from th have p: "parse_status (JStr ''ON'') = False"
    by blast
  from th have q: "state_result (Response (Some (JObj [(''state'', JStr ''ON'')]))) = Some False"
    by blast
  have r: "fst (is_HA_state_on hub_shouting (plugin_with (Some cfg_kitchen) (Some True))) =
           state_result (Response (Some (JObj [(''state'', JStr ''ON'')])))"
    by (simp add: is_HA_state_on_def plugin_with_def is_config_completed_def cfg_kitchen_def
        send_def hub_shouting_def del: state_result.simps)
  from h p q r show ?thesis by simp
qed

text \<open>
  C10. With the cache at \<open>None\<close> the handler treats the light as off: \<^verbatim>\<open>turnOn\<close> runs
  \<^const>\<open>toggle_light\<close>, which with a complete configuration begins with the POST to the toggle
  service, and \<^verbatim>\<open>turnOff\<close> makes no call and leaves the plugin unchanged.
\<close>

theorem unknown_cache_treated_as_off:
  assumes "isLightOn s = None"
    and "config s = Some c"
    and "is_config_completed (config s)"
  shows "on_api_get hub (Some ''turnOn'') s =
           (jsonify_state (isLightOn (toggle_light hub s)), toggle_light hub s)
         \<and> (\<exists>rest. trace (toggle_light hub s) = trace s @ Request (toggle_request c) # rest)
         \<and> on_api_get hub (Some ''turnOff'') s = (jsonify_state None, s)"
proof -
  have on: "on_api_get hub (Some ''turnOn'') s =
              (jsonify_state (isLightOn (toggle_light hub s)), toggle_light hub s)"
    using assms(1) by (simp add: on_api_get_def Let_def)
  have off: "on_api_get hub (Some ''turnOff'') s = (jsonify_state None, s)"
    using assms(1) by (simp add: on_api_get_def Let_def)
  obtain rest where p: "trace (snd (toggle_HA_state hub s)) =
                          trace s @ Request (toggle_request c) # rest"
    using toggle_HA_state_posts_first [OF assms(2,3)] by blast
  have "trace (toggle_light hub s) =
          trace s @ Request (toggle_request c) # (rest @ [PluginMessage (fst (toggle_HA_state hub s))])"
    using p by (cases "toggle_HA_state hub s") (simp add: toggle_light_def)
  then have call: "\<exists>rest. trace (toggle_light hub s) = trace s @ Request (toggle_request c) # rest"
    by blast
  from on call off show ?thesis by blast
qed

theorem unknown_cache_treated_as_off_witness:
  "isLightOn (plugin_with (Some cfg_kitchen) None) = None
   \<and> config (plugin_with (Some cfg_kitchen) None) = Some cfg_kitchen
   \<and> is_config_completed (config (plugin_with (Some cfg_kitchen) None))
   \<and> on_api_get hub_lagging (Some ''turnOff'') (plugin_with (Some cfg_kitchen) None) =
       (jsonify_state None, plugin_with (Some cfg_kitchen) None)
   \<and> on_api_get hub_lagging (Some ''turnOn'') (plugin_with (Some cfg_kitchen) None) =
       (jsonify_state (isLightOn (toggle_light hub_lagging (plugin_with (Some cfg_kitchen) None))),
        toggle_light hub_lagging (plugin_with (Some cfg_kitchen) None))"
proof -
  have h1: "isLightOn (plugin_with (Some cfg_kitchen) None) = None"
    by (simp add: plugin_with_def)
  have h2: "config (plugin_with (Some cfg_kitchen) None) = Some cfg_kitchen"
    by (simp add: plugin_with_def)
  have h3: "is_config_completed (config (plugin_with (Some cfg_kitchen) None))"
    by (simp add: plugin_with_def is_config_completed_def cfg_kitchen_def)
  from unknown_cache_treated_as_off
         [where s = "plugin_with (Some cfg_kitchen) None" and c = cfg_kitchen
            and hub = hub_lagging, OF h1 h2 h3] h1 h2 h3
  show ?thesis by blast
qed

end
